theory Spec2Isabelle
  imports Main "HOL-Library.Word"
begin

section \<open>The run-time values the snippets use\<close>

subsection \<open>Strings\<close>

text \<open>
  A TypeScript string is a sequence of 16-bit code units. The string literals of the
  source are ASCII, so a literal is written \<open>js ''...''\<close>: each character becomes the
  code unit of the same number.
\<close>

type_synonym code_unit = "16 word"
type_synonym jsstring = "code_unit list"

definition js :: "string \<Rightarrow> jsstring" where
  "js s = map of_char s"

text \<open>\<open>string_includes s t\<close> is \<open>s.includes(t)\<close>: \<open>t\<close> occurs in \<open>s\<close> as a contiguous run.\<close>

fun starts_with :: "jsstring \<Rightarrow> jsstring \<Rightarrow> bool" where
  "starts_with s [] = True"
| "starts_with [] (c # t) = False"
| "starts_with (d # s) (c # t) = (d = c \<and> starts_with s t)"

fun string_includes :: "jsstring \<Rightarrow> jsstring \<Rightarrow> bool" where
  "string_includes [] t = (t = [])"
| "string_includes (d # s) t = (starts_with (d # s) t \<or> string_includes s t)"

subsection \<open>Numbers\<close>

text \<open>
  A TypeScript \<open>number\<close> is an IEEE 754 binary64 value. \<open>Finite s m e\<close> is the double
  with sign \<open>s\<close> (\<open>True\<close> for negative), significand \<open>m\<close> and exponent \<open>e\<close>, of value
  \<open>m * 2 ^ e\<close>: \<open>m < 2 ^ 53\<close>, \<open>- 1074 \<le> e \<le> 971\<close>, and \<open>2 ^ 52 \<le> m\<close> unless
  \<open>e = - 1074\<close> (the subnormals and the two zeros).
\<close>

datatype number = NaN | Infinity bool | Finite bool nat int

fun bit_length :: "nat \<Rightarrow> nat" where
  "bit_length n = (if n = 0 then 0 else Suc (bit_length (n div 2)))"

declare bit_length.simps [simp del]

text \<open>The quotient \<open>p / d\<close> rounded to the nearest integer, a tie to the even one.\<close>

definition round_half_even :: "nat \<Rightarrow> nat \<Rightarrow> nat" where
  "round_half_even p d =
     (let q = p div d; r = p mod d
      in if 2 * r < d then q
         else if d < 2 * r then q + 1
         else if even q then q else q + 1)"

text \<open>\<open>scaled p q e\<close> is \<open>p / q / 2 ^ e\<close>, rounded.\<close>

definition scaled :: "nat \<Rightarrow> nat \<Rightarrow> int \<Rightarrow> nat" where
  "scaled p q e =
     (if 0 \<le> e then round_half_even p (q * 2 ^ nat e)
      else round_half_even (p * 2 ^ nat (- e)) q)"

text \<open>For \<open>0 < p\<close> and \<open>0 < q\<close>, the \<open>d\<close> with \<open>2 ^ d \<le> p / q < 2 ^ (d + 1)\<close>.\<close>

definition floor_log2 :: "nat \<Rightarrow> nat \<Rightarrow> int" where
  "floor_log2 p q =
     (let d = int (bit_length p) - int (bit_length q)
      in if (if 0 \<le> d then q * 2 ^ nat d \<le> p else q \<le> p * 2 ^ nat (- d)) then d else d - 1)"

text \<open>
  \<open>round_double s p q\<close> is the double nearest to the rational \<open>p / q\<close> with sign \<open>s\<close>
  (round to nearest, ties to even): 53 significant bits, gradual underflow below
  \<open>2 ^ - 1022\<close>, overflow to infinity.
\<close>

definition round_double :: "bool \<Rightarrow> nat \<Rightarrow> nat \<Rightarrow> number" where
  "round_double s p q =
     (if p = 0 then Finite s 0 (- 1074)
      else
        let e = max (floor_log2 p q - 52) (- 1074);
            m = scaled p q e;
            (m, e) = (if m = 2 ^ 53 then (2 ^ 52, e + 1) else (m, e))
        in if 971 < e then Infinity s else Finite s m e)"

text \<open>
  A decimal literal of the source, \<open>d\<close> followed by the exponent \<open>x\<close>: \<open>0.05\<close> is
  \<open>decimal 5 (- 2)\<close> and \<open>1000\<close> is \<open>decimal 1000 0\<close>.
\<close>

definition decimal :: "nat \<Rightarrow> int \<Rightarrow> number" where
  "decimal d x =
     (if 0 \<le> x then round_double False (d * 10 ^ nat x) 1
      else round_double False d (10 ^ nat (- x)))"

text \<open>The operator \<open>*\<close> on numbers: the exact product, rounded.\<close>

instantiation number :: times
begin

fun times_number :: "number \<Rightarrow> number \<Rightarrow> number" where
  "times_number NaN y = NaN"
| "times_number x NaN = NaN"
| "times_number (Infinity s) (Infinity t) = Infinity (s \<noteq> t)"
| "times_number (Infinity s) (Finite t m e) = (if m = 0 then NaN else Infinity (s \<noteq> t))"
| "times_number (Finite s m e) (Infinity t) = (if m = 0 then NaN else Infinity (s \<noteq> t))"
| "times_number (Finite s m e) (Finite t n f) =
     (if 0 \<le> e + f then round_double (s \<noteq> t) (m * n * 2 ^ nat (e + f)) 1
      else round_double (s \<noteq> t) (m * n) (2 ^ nat (- (e + f))))"

instance ..

end

subsection \<open>Numbers in template literals\<close>

text \<open>
  \<open>${amount}\<close> in a template literal is \<open>Number::toString(amount)\<close> in radix 10: the
  shortest decimal \<open>s * 10 ^ (n - k)\<close> of \<open>k\<close> digits that reads back as the number,
  laid out by the size of \<open>n\<close>.
\<close>

definition digit :: "nat \<Rightarrow> code_unit" where
  "digit d = of_nat (48 + d)"

fun digits :: "nat \<Rightarrow> jsstring" where
  "digits n = (if n < 10 then [digit n] else digits (n div 10) @ [digit (n mod 10)])"

declare digits.simps [simp del]

function leading_zeros :: "nat \<Rightarrow> nat \<Rightarrow> nat" where
  "leading_zeros p q = (if p = 0 \<or> q \<le> 10 * p then 0 else Suc (leading_zeros (10 * p) q))"
  by pat_completeness auto
termination
  by (relation "measure (\<lambda>(p, q). q - p)") auto

declare leading_zeros.simps [simp del]

text \<open>For \<open>0 < p\<close> and \<open>0 < q\<close>, the \<open>n\<close> with \<open>10 ^ (n - 1) \<le> p / q < 10 ^ n\<close>.\<close>

definition integer_digits :: "nat \<Rightarrow> nat \<Rightarrow> int" where
  "integer_digits p q =
     (if q \<le> p then int (length (digits (p div q))) else - int (leading_zeros p q))"

text \<open>
  \<open>p / q\<close> as the fraction \<open>P / D\<close> in units of \<open>10 ^ (n - k)\<close>: its floor is the
  \<open>k\<close>-digit candidate below the number, the next integer the candidate above.
\<close>

definition in_units :: "nat \<Rightarrow> nat \<Rightarrow> int \<Rightarrow> nat \<Rightarrow> nat \<times> nat" where
  "in_units p q n k =
     (if int k \<le> n then (p, q * 10 ^ nat (n - int k)) else (p * 10 ^ nat (int k - n), q))"

text \<open>
  The candidates of \<open>k\<close> digits that read back as \<open>x\<close>; where both do, the one nearer to
  \<open>p / q\<close>, and the even one when they are equally near.
\<close>

definition candidates :: "number \<Rightarrow> nat \<Rightarrow> nat \<Rightarrow> int \<Rightarrow> nat \<Rightarrow> nat list" where
  "candidates x p q n k =
     (let (P, D) = in_units p q n k;
          lo = P div D; hi = lo + 1;
          ok = (\<lambda>s. decimal s (n - int k) = x)
      in if ok lo \<and> ok hi then
           (if 2 * (P mod D) < D then [lo]
            else if D < 2 * (P mod D) then [hi]
            else if even lo then [lo] else [hi])
         else filter ok [lo, hi])"

text \<open>
  The digit counts \<open>k, k + 1, \<dots>, 17\<close> in turn; seventeen digits tell any two doubles
  apart, so the search has ended by then. A candidate \<open>10 ^ k\<close> is the one digit \<open>1\<close>, one
  place up.
\<close>

function shortest :: "number \<Rightarrow> nat \<Rightarrow> nat \<Rightarrow> int \<Rightarrow> nat \<Rightarrow> int \<times> nat \<times> nat" where
  "shortest x p q n k =
     (case candidates x p q n k of
        s # _ \<Rightarrow> if s = 10 ^ k then (n + 1, 1, 1) else (n, k, s)
      | [] \<Rightarrow>
          if k < 17 then shortest x p q n (k + 1)
          else (n, k, fst (in_units p q n k) div snd (in_units p q n k)))"
  by pat_completeness auto
termination
  by (relation "measure (\<lambda>(x, p, q, n, k). 17 - k)") auto

declare shortest.simps [simp del]

definition format :: "int \<Rightarrow> nat \<Rightarrow> nat \<Rightarrow> jsstring" where
  "format n k s =
     (if int k \<le> n \<and> n \<le> 21 then digits s @ replicate (nat (n - int k)) (digit 0)
      else if 0 < n \<and> n \<le> 21 then take (nat n) (digits s) @ js ''.'' @ drop (nat n) (digits s)
      else if - 6 < n \<and> n \<le> 0 then js ''0.'' @ replicate (nat (- n)) (digit 0) @ digits s
      else
        (if k = 1 then digits s else take 1 (digits s) @ js ''.'' @ drop 1 (digits s))
        @ js ''e'' @ (if n - 1 < 0 then js ''-'' else js ''+'') @ digits (nat \<bar>n - 1\<bar>))"

fun Number_toString :: "number \<Rightarrow> jsstring" where
  "Number_toString NaN = js ''NaN''"
| "Number_toString (Infinity s) = (if s then js ''-Infinity'' else js ''Infinity'')"
| "Number_toString (Finite s m e) =
     (if m = 0 then js ''0''
      else
        (if s then js ''-'' else []) @
        (let p = (if 0 \<le> e then m * 2 ^ nat e else m);
             q = (if 0 \<le> e then 1 else 2 ^ nat (- e));
             (n, k, d) = shortest (round_double False p q) p q (integer_digits p q) 1
         in format n k d))"

subsection \<open>Objects as JSON text\<close>

text \<open>
  \<open>JSON.stringify\<close> is applied to one kind of value only, the object literal with string
  properties that \<open>getUser\<close> builds. Such an object is the list of its properties in
  creation order. A string is quoted, with the double quote, the backslash, the control characters and
  any surrogate that has no partner escaped; everything else is copied.
\<close>

type_synonym object = "(jsstring \<times> jsstring) list"

definition hex_digit :: "nat \<Rightarrow> code_unit" where
  "hex_digit d = (if d < 10 then of_nat (48 + d) else of_nat (87 + d))"

definition unicode_escape :: "code_unit \<Rightarrow> jsstring" where
  "unicode_escape c =
     [0x5C, 0x75] @
     map hex_digit [unat c div 4096, unat c div 256 mod 16, unat c div 16 mod 16, unat c mod 16]"

definition is_leading_surrogate :: "code_unit \<Rightarrow> bool" where
  "is_leading_surrogate c = (0xD800 \<le> c \<and> c \<le> 0xDBFF)"

definition is_trailing_surrogate :: "code_unit \<Rightarrow> bool" where
  "is_trailing_surrogate c = (0xDC00 \<le> c \<and> c \<le> 0xDFFF)"

fun quote_units :: "jsstring \<Rightarrow> jsstring" where
  "quote_units [] = []"
| "quote_units (c # cs) =
     (if c = 0x08 then [0x5C, 0x62] @ quote_units cs
      else if c = 0x09 then [0x5C, 0x74] @ quote_units cs
      else if c = 0x0A then [0x5C, 0x6E] @ quote_units cs
      else if c = 0x0C then [0x5C, 0x66] @ quote_units cs
      else if c = 0x0D then [0x5C, 0x72] @ quote_units cs
      else if c = 0x22 then [0x5C, 0x22] @ quote_units cs
      else if c = 0x5C then [0x5C, 0x5C] @ quote_units cs
      else if c < 0x20 then unicode_escape c @ quote_units cs
      else if is_leading_surrogate c then
        (case cs of
           [] \<Rightarrow> unicode_escape c
         | d # ds \<Rightarrow>
             if is_trailing_surrogate d then c # d # quote_units ds
             else unicode_escape c @ quote_units cs)
      else if is_trailing_surrogate c then unicode_escape c @ quote_units cs
      else c # quote_units cs)"

definition QuoteJSONString :: "jsstring \<Rightarrow> jsstring" where
  "QuoteJSONString s = [0x22] @ quote_units s @ [0x22]"

fun join :: "jsstring \<Rightarrow> jsstring list \<Rightarrow> jsstring" where
  "join sep [] = []"
| "join sep [x] = x"
| "join sep (x # y # ys) = x @ sep @ join sep (y # ys)"

definition JSON_stringify :: "object \<Rightarrow> jsstring" where
  "JSON_stringify props =
     js ''{'' @
     join (js '','') (map (\<lambda>(k, v). QuoteJSONString k @ js '':'' @ QuoteJSONString v) props) @
     js ''}''"

subsection \<open>The clock\<close>












subsection \<open>Errors and the console\<close>

text \<open>
  \<open>throw new Error(msg)\<close> is the only way the snippets fail; the thrown object is
  modelled by its message. A call either completes with a value (\<open>Inr\<close>) or throws
  (\<open>Inl\<close>).
\<close>

datatype Error = Error jsstring

text \<open>
  The only effect of the snippets is \<open>console.log\<close>. The console is the list of the
  messages logged so far, oldest first; an effectful call takes the console and returns
  its completion together with the console it leaves behind.
\<close>

type_synonym console = "jsstring list"
type_synonym 'a call = "console \<Rightarrow> (Error + 'a) \<times> console"

definition console_log :: "jsstring \<Rightarrow> unit call" where
  "console_log msg out = (Inr (), out @ [msg])"

definition throw :: "Error \<Rightarrow> 'a call" where
  "throw e out = (Inl e, out)"

text \<open>
  \<open>seq f g\<close> is the statement \<open>f\<close> followed by the statements \<open>g\<close>. No snippet has a
  \<open>try\<close>: when \<open>f\<close> throws, \<open>g\<close> does not run and the error is the outcome of the whole.
\<close>

definition seq :: "unit call \<Rightarrow> 'a call \<Rightarrow> 'a call" where
  "seq f g out = (case f out of (Inl e, out') \<Rightarrow> (Inl e, out') | (Inr u, out') \<Rightarrow> g out')"


section \<open>The snippets\<close>

text \<open>
  No method body of the source assigns to a field: a field is written once, by the
  constructor. An object is therefore the value of its fields, a class a datatype with
  one constructor that takes them, and a method a function of the receiver \<open>this\<close>.
  An abstract class or interface that a call site consumes is the record of its
  methods; \<open>extends\<close> and \<open>implements\<close> turn an object into that record.
\<close>

subsection \<open>Single responsibility: \<open>User\<close> and \<open>Logger\<close>\<close>

text \<open>The constructor takes \<open>name\<close>, \<open>email\<close> and \<open>password\<close>, in this order.\<close>

datatype User = User jsstring jsstring jsstring

fun User_getUser :: "User \<Rightarrow> object" where
  "User_getUser (User name email password) = [(js ''name'', name), (js ''email'', email)]"

definition User_save :: "User \<Rightarrow> unit call" where
  "User_save this =
     console_log (js ''User '' @ JSON_stringify (User_getUser this) @ js '' saved to database'')"



subsection \<open>Open/closed: discounts\<close>

text \<open>
  The version before the principle is applied, kept in the source as a comment: one
  class \<open>Discount\<close> with the fields \<open>customerType\<close> and \<open>amount\<close>, branching on the tag.
\<close>

datatype Discount = Discount jsstring number

fun Discount_calculateDiscount :: "Discount \<Rightarrow> Error + number" where
  "Discount_calculateDiscount (Discount customerType amount) =
     (if customerType = js ''regular'' then Inr (amount * decimal 5 (- 2))
      else if customerType = js ''silver'' then Inr (amount * decimal 1 (- 1))
      else if customerType = js ''gold'' then Inr (amount * decimal 15 (- 2))
      else Inl (Error (js ''Customer type not supported'')))"

text \<open>The version after: one class for each kind of customer, each with its \<open>amount\<close>.\<close>

datatype RegularCustomer = RegularCustomer number

fun RegularCustomer_calculateDiscount :: "RegularCustomer \<Rightarrow> number" where
  "RegularCustomer_calculateDiscount (RegularCustomer amount) = amount * decimal 5 (- 2)"

datatype SilverCustomer = SilverCustomer number

fun SilverCustomer_calculateDiscount :: "SilverCustomer \<Rightarrow> number" where
  "SilverCustomer_calculateDiscount (SilverCustomer amount) = amount * decimal 1 (- 1)"

datatype GoldCustomer = GoldCustomer number

fun GoldCustomer_calculateDiscount :: "GoldCustomer \<Rightarrow> number" where
  "GoldCustomer_calculateDiscount (GoldCustomer amount) = amount * decimal 15 (- 2)"

datatype PremiumCustomer = PremiumCustomer number

fun PremiumCustomer_calculateDiscount :: "PremiumCustomer \<Rightarrow> number" where
  "PremiumCustomer_calculateDiscount (PremiumCustomer amount) = amount * decimal 2 (- 1)"

subsection \<open>Liskov substitution: payments\<close>

record Payment =
  processPayment :: "number \<Rightarrow> unit call"

datatype CreditCardPayment = CreditCardPayment

definition CreditCardPayment_processPayment :: "CreditCardPayment \<Rightarrow> number \<Rightarrow> unit call" where
  "CreditCardPayment_processPayment this amount =
     console_log (js ''Processed credit card payment of $'' @ Number_toString amount)"

definition CreditCardPayment_extends_Payment :: "CreditCardPayment \<Rightarrow> Payment" where
  "CreditCardPayment_extends_Payment this =
     \<lparr>processPayment = CreditCardPayment_processPayment this\<rparr>"

datatype PayPalPayment = PayPalPayment

definition PayPalPayment_processPayment :: "PayPalPayment \<Rightarrow> number \<Rightarrow> unit call" where
  "PayPalPayment_processPayment this amount =
     console_log (js ''Processed PayPal payment of $'' @ Number_toString amount)"

definition PayPalPayment_extends_Payment :: "PayPalPayment \<Rightarrow> Payment" where
  "PayPalPayment_extends_Payment this = \<lparr>processPayment = PayPalPayment_processPayment this\<rparr>"

datatype BankTransferPayment = BankTransferPayment

definition BankTransferPayment_processPayment ::
    "BankTransferPayment \<Rightarrow> number \<Rightarrow> unit call" where
  "BankTransferPayment_processPayment this amount =
     console_log (js ''Processed bank transfer payment of $'' @ Number_toString amount)"

definition BankTransferPayment_extends_Payment :: "BankTransferPayment \<Rightarrow> Payment" where
  "BankTransferPayment_extends_Payment this =
     \<lparr>processPayment = BankTransferPayment_processPayment this\<rparr>"

definition processCustomerPayment :: "Payment \<Rightarrow> number \<Rightarrow> unit call" where
  "processCustomerPayment paymentMethod amount = processPayment paymentMethod amount"

text \<open>The class the source adds after \<open>processCustomerPayment\<close> and its first three uses.\<close>

datatype CryptoPayment = CryptoPayment

definition CryptoPayment_processPayment :: "CryptoPayment \<Rightarrow> number \<Rightarrow> unit call" where
  "CryptoPayment_processPayment this amount =
     console_log (js ''Processed cryptocurrency payment of $'' @ Number_toString amount)"

definition CryptoPayment_extends_Payment :: "CryptoPayment \<Rightarrow> Payment" where
  "CryptoPayment_extends_Payment this = \<lparr>processPayment = CryptoPayment_processPayment this\<rparr>"

subsection \<open>Interface segregation: printers\<close>

text \<open>
  Every operation of the printer interfaces takes no argument and returns nothing. An
  interface is the list of the operations it declares; a class is the table of the
  methods it declares, by name.
\<close>

type_synonym interface = "string list"

definition Printer :: interface where
  "Printer = [''print'', ''scan'', ''fax'']"

datatype BasicPrinter = BasicPrinter

definition BasicPrinter_print :: "BasicPrinter \<Rightarrow> unit call" where
  "BasicPrinter_print this = console_log (js ''Printing document...'')"

definition BasicPrinter_scan :: "BasicPrinter \<Rightarrow> unit call" where
  "BasicPrinter_scan this = throw (Error (js ''Scan not supported by BasicPrinter.''))"

definition BasicPrinter_fax :: "BasicPrinter \<Rightarrow> unit call" where
  "BasicPrinter_fax this = throw (Error (js ''Fax not supported by BasicPrinter.''))"

definition BasicPrinter_methods :: "(string \<times> (BasicPrinter \<Rightarrow> unit call)) list" where
  "BasicPrinter_methods =
     [(''print'', BasicPrinter_print), (''scan'', BasicPrinter_scan), (''fax'', BasicPrinter_fax)]"

definition BasicPrinter_implements :: "interface list" where
  "BasicPrinter_implements = [Printer]"

definition Printable :: interface where
  "Printable = [''print'']"

definition Scannable :: interface where
  "Scannable = [''scan'']"

definition Faxable :: interface where
  "Faxable = [''fax'']"

datatype BasicPrinterISP = BasicPrinterISP

definition BasicPrinterISP_print :: "BasicPrinterISP \<Rightarrow> unit call" where
  "BasicPrinterISP_print this = console_log (js ''Printing document...'')"

definition BasicPrinterISP_methods :: "(string \<times> (BasicPrinterISP \<Rightarrow> unit call)) list" where
  "BasicPrinterISP_methods = [(''print'', BasicPrinterISP_print)]"

definition BasicPrinterISP_implements :: "interface list" where
  "BasicPrinterISP_implements = [Printable]"

datatype AdvancedPrinter = AdvancedPrinter

definition AdvancedPrinter_print :: "AdvancedPrinter \<Rightarrow> unit call" where
  "AdvancedPrinter_print this = console_log (js ''Printing document...'')"

definition AdvancedPrinter_scan :: "AdvancedPrinter \<Rightarrow> unit call" where
  "AdvancedPrinter_scan this = console_log (js ''Scanning document...'')"

definition AdvancedPrinter_fax :: "AdvancedPrinter \<Rightarrow> unit call" where
  "AdvancedPrinter_fax this = console_log (js ''Faxing document...'')"

definition AdvancedPrinter_methods :: "(string \<times> (AdvancedPrinter \<Rightarrow> unit call)) list" where
  "AdvancedPrinter_methods =
     [(''print'', AdvancedPrinter_print), (''scan'', AdvancedPrinter_scan),
      (''fax'', AdvancedPrinter_fax)]"

definition AdvancedPrinter_implements :: "interface list" where
  "AdvancedPrinter_implements = [Printable, Scannable, Faxable]"

definition Photocopyable :: interface where
  "Photocopyable = [''photocopy'']"

datatype Photocopier = Photocopier

definition Photocopier_print :: "Photocopier \<Rightarrow> unit call" where
  "Photocopier_print this = console_log (js ''Printing document...'')"

definition Photocopier_photocopy :: "Photocopier \<Rightarrow> unit call" where
  "Photocopier_photocopy this = console_log (js ''Photocopying document...'')"

definition Photocopier_methods :: "(string \<times> (Photocopier \<Rightarrow> unit call)) list" where
  "Photocopier_methods = [(''print'', Photocopier_print), (''photocopy'', Photocopier_photocopy)]"

definition Photocopier_implements :: "interface list" where
  "Photocopier_implements = [Printable, Photocopyable]"

subsection \<open>Dependency inversion: databases\<close>

datatype MySqlDatabase = MySqlDatabase

definition MySqlDatabase_save :: "MySqlDatabase \<Rightarrow> jsstring \<Rightarrow> unit call" where
  "MySqlDatabase_save this data = console_log (data @ js '' is being saved to MySQL'')"

datatype MongoDbDatabase = MongoDbDatabase

definition MongoDbDatabase_save :: "MongoDbDatabase \<Rightarrow> jsstring \<Rightarrow> unit call" where
  "MongoDbDatabase_save this data = console_log (data @ js '' is being saved to MongoDB'')"

text \<open>The fields are \<open>mysqlDatabase\<close> and \<open>mongoDatabase\<close>; the constructor creates both.\<close>

datatype HighLevelModule = HighLevelModule MySqlDatabase MongoDbDatabase

definition HighLevelModule_new :: HighLevelModule where
  "HighLevelModule_new = HighLevelModule MySqlDatabase MongoDbDatabase"

fun HighLevelModule_saveToMySQL :: "HighLevelModule \<Rightarrow> jsstring \<Rightarrow> unit call" where
  "HighLevelModule_saveToMySQL (HighLevelModule mysqlDatabase mongoDatabase) data =
     MySqlDatabase_save mysqlDatabase data"

fun HighLevelModule_saveToMongoDB :: "HighLevelModule \<Rightarrow> jsstring \<Rightarrow> unit call" where
  "HighLevelModule_saveToMongoDB (HighLevelModule mysqlDatabase mongoDatabase) data =
     MongoDbDatabase_save mongoDatabase data"

record IDatabase =
  save :: "jsstring \<Rightarrow> unit call"

datatype MySqlDatabaseDIP = MySqlDatabaseDIP

definition MySqlDatabaseDIP_save :: "MySqlDatabaseDIP \<Rightarrow> jsstring \<Rightarrow> unit call" where
  "MySqlDatabaseDIP_save this data = console_log (data @ js '' is being saved to MySQL'')"

definition MySqlDatabaseDIP_implements_IDatabase :: "MySqlDatabaseDIP \<Rightarrow> IDatabase" where
  "MySqlDatabaseDIP_implements_IDatabase this = \<lparr>save = MySqlDatabaseDIP_save this\<rparr>"

datatype MongoDbDatabaseDIP = MongoDbDatabaseDIP

definition MongoDbDatabaseDIP_save :: "MongoDbDatabaseDIP \<Rightarrow> jsstring \<Rightarrow> unit call" where
  "MongoDbDatabaseDIP_save this data = console_log (data @ js '' is being saved to MongoDB'')"

definition MongoDbDatabaseDIP_implements_IDatabase :: "MongoDbDatabaseDIP \<Rightarrow> IDatabase" where
  "MongoDbDatabaseDIP_implements_IDatabase this = \<lparr>save = MongoDbDatabaseDIP_save this\<rparr>"

text \<open>The field is \<open>database\<close>; the constructor stores its argument there.\<close>

datatype HighLevelModuleDIP = HighLevelModuleDIP IDatabase

fun HighLevelModuleDIP_saveData :: "HighLevelModuleDIP \<Rightarrow> jsstring \<Rightarrow> unit call" where
  "HighLevelModuleDIP_saveData (HighLevelModuleDIP database) data = save database data"

section \<open>Evaluation lemmas\<close>

lemma replicate_numeral: "replicate (numeral k) x = x # replicate (pred_numeral k) x"
  by (simp add: numeral_eq_Suc)

lemmas round_double_simps =
  decimal_def round_double_def floor_log2_def scaled_def round_half_even_def bit_length.simps
  Let_def

lemma decimal_100: "decimal 100 0 = Finite False 7036874417766400 (- 46)"
  by (simp add: round_double_simps)

lemma decimal_1000: "decimal 1000 0 = Finite False 8796093022208000 (- 43)"
  by (simp add: round_double_simps)

lemma decimal_5_percent: "decimal 5 (- 2) = Finite False 7205759403792794 (- 57)"
  by (simp add: round_double_simps)

lemma decimal_10_percent: "decimal 1 (- 1) = Finite False 7205759403792794 (- 56)"
  by (simp add: round_double_simps)

lemma decimal_15_percent: "decimal 15 (- 2) = Finite False 5404319552844595 (- 55)"
  by (simp add: round_double_simps)

lemma decimal_20_percent: "decimal 2 (- 1) = Finite False 7205759403792794 (- 55)"
  by (simp add: round_double_simps)

lemma regular_discount_1000: "decimal 1000 0 * decimal 5 (- 2) = decimal 50 0"
  by (simp add: round_double_simps)

lemma silver_discount_1000: "decimal 1000 0 * decimal 1 (- 1) = decimal 100 0"
  by (simp add: round_double_simps)

lemma gold_discount_1000: "decimal 1000 0 * decimal 15 (- 2) = decimal 150 0"
  by (simp add: round_double_simps)

lemma premium_discount_1000: "decimal 1000 0 * decimal 2 (- 1) = decimal 200 0"
  by (simp add: round_double_simps)

lemma gold_discount_2000: "decimal 2000 0 * decimal 15 (- 2) = decimal 300 0"
  by (simp add: round_double_simps)

text \<open>The product is rounded: three times \<open>0.05\<close> is not the number \<open>0.15\<close>.\<close>

lemma times_number_rounds: "decimal 3 0 * decimal 5 (- 2) \<noteq> decimal 15 (- 2)"
  by (simp add: round_double_simps)

lemma round_double_100:
  "round_double False 7036874417766400 70368744177664 = Finite False 7036874417766400 (- 46)"
  by (simp add: round_double_simps)

lemma integer_digits_100: "integer_digits 7036874417766400 70368744177664 = 3"
  by (simp add: integer_digits_def digits.simps)

lemma candidates_100:
  "candidates (Finite False 7036874417766400 (- 46)) 7036874417766400 70368744177664 3 1 = [1]"
  by (simp add: candidates_def in_units_def round_double_simps del: One_nat_def)

lemma shortest_100:
  "shortest (Finite False 7036874417766400 (- 46)) 7036874417766400 70368744177664 3 1
     = (3, 1, 1)"
  by (subst shortest.simps) (simp add: candidates_100 del: One_nat_def)

lemma format_100: "format 3 1 1 = js ''100''"
  by (simp add: format_def digits.simps js_def digit_def replicate_numeral)

lemma Number_toString_100: "Number_toString (decimal 100 0) = js ''100''"
  by (simp add: decimal_100 round_double_100 integer_digits_100 shortest_100 format_100
      del: One_nat_def)

section \<open>Substitutability of payments\<close>

text \<open>
  Claim C1. For every object \<open>paymentMethod\<close> of type \<open>Payment\<close> and every amount, the call
  \<open>processCustomerPayment(paymentMethod, amount)\<close> has the effect of
  \<open>paymentMethod.processPayment(amount)\<close>: the same completion and the same console, from any
  console. The statement holds for any object with a \<open>processPayment\<close> method, so the call
  site cannot tell the variants apart; for the four classes of the source the effect is
  that of the class's own method.
\<close>

theorem processCustomerPayment_substitutable:
  "processCustomerPayment paymentMethod amount out = processPayment paymentMethod amount out
   \<and> processCustomerPayment (CreditCardPayment_extends_Payment creditCardPayment) amount out
       = CreditCardPayment_processPayment creditCardPayment amount out
   \<and> processCustomerPayment (PayPalPayment_extends_Payment payPalPayment) amount out
       = PayPalPayment_processPayment payPalPayment amount out
   \<and> processCustomerPayment (BankTransferPayment_extends_Payment bankTransferPayment) amount out
       = BankTransferPayment_processPayment bankTransferPayment amount out
   \<and> processCustomerPayment (CryptoPayment_extends_Payment cryptoPayment) amount out
       = CryptoPayment_processPayment cryptoPayment amount out"
  by (simp add: processCustomerPayment_def CreditCardPayment_extends_Payment_def
      PayPalPayment_extends_Payment_def BankTransferPayment_extends_Payment_def
      CryptoPayment_extends_Payment_def)

section \<open>Discounts on 1000\<close>

text \<open>
  Claim C2. Constructed with the amount 1000, \<open>calculateDiscount()\<close> returns 50 for a
  \<open>RegularCustomer\<close>, 100 for a \<open>SilverCustomer\<close>, 150 for a \<open>GoldCustomer\<close> and 200 for a
  \<open>PremiumCustomer\<close>: the rounded products of binary64 arithmetic are these numbers
  exactly.
\<close>

theorem calculateDiscount_1000:
  "RegularCustomer_calculateDiscount (RegularCustomer (decimal 1000 0)) = decimal 50 0
   \<and> SilverCustomer_calculateDiscount (SilverCustomer (decimal 1000 0)) = decimal 100 0
   \<and> GoldCustomer_calculateDiscount (GoldCustomer (decimal 1000 0)) = decimal 150 0
   \<and> PremiumCustomer_calculateDiscount (PremiumCustomer (decimal 1000 0)) = decimal 200 0"
  by (simp only: RegularCustomer_calculateDiscount.simps SilverCustomer_calculateDiscount.simps
      GoldCustomer_calculateDiscount.simps PremiumCustomer_calculateDiscount.simps
      regular_discount_1000 silver_discount_1000 gold_discount_1000 premium_discount_1000
      simp_thms)

section \<open>Variant-specific messages\<close>

lemma credit_card_message:
  "string_includes (js ''Processed credit card payment of $100'') (js ''credit card'')
   \<and> string_includes (js ''Processed credit card payment of $100'') (js ''100'')"
  by (simp add: js_def)

lemma PayPal_message:
  "string_includes (js ''Processed PayPal payment of $100'') (js ''PayPal'')
   \<and> string_includes (js ''Processed PayPal payment of $100'') (js ''100'')"
  by (simp add: js_def)

lemma bank_transfer_message:
  "string_includes (js ''Processed bank transfer payment of $100'') (js ''bank transfer'')
   \<and> string_includes (js ''Processed bank transfer payment of $100'') (js ''100'')"
  by (simp add: js_def)

lemma cryptocurrency_message:
  "string_includes (js ''Processed cryptocurrency payment of $100'') (js ''cryptocurrency'')
   \<and> string_includes (js ''Processed cryptocurrency payment of $100'') (js ''100'')"
  by (simp add: js_def)

lemma credit_card_100:
  "processCustomerPayment (CreditCardPayment_extends_Payment CreditCardPayment) (decimal 100 0) out
     = (Inr (), out @ [js ''Processed credit card payment of $100''])"
  by (simp add: processCustomerPayment_def CreditCardPayment_extends_Payment_def
      CreditCardPayment_processPayment_def console_log_def Number_toString_100)
     (simp add: js_def)

lemma PayPal_100:
  "processCustomerPayment (PayPalPayment_extends_Payment PayPalPayment) (decimal 100 0) out
     = (Inr (), out @ [js ''Processed PayPal payment of $100''])"
  by (simp add: processCustomerPayment_def PayPalPayment_extends_Payment_def
      PayPalPayment_processPayment_def console_log_def Number_toString_100)
     (simp add: js_def)

lemma bank_transfer_100:
  "processCustomerPayment (BankTransferPayment_extends_Payment BankTransferPayment)
       (decimal 100 0) out
     = (Inr (), out @ [js ''Processed bank transfer payment of $100''])"
  by (simp add: processCustomerPayment_def BankTransferPayment_extends_Payment_def
      BankTransferPayment_processPayment_def console_log_def Number_toString_100)
     (simp add: js_def)

lemma cryptocurrency_100:
  "processCustomerPayment (CryptoPayment_extends_Payment CryptoPayment) (decimal 100 0) out
     = (Inr (), out @ [js ''Processed cryptocurrency payment of $100''])"
  by (simp add: processCustomerPayment_def CryptoPayment_extends_Payment_def
      CryptoPayment_processPayment_def console_log_def Number_toString_100)
     (simp add: js_def)

text \<open>
  Claim C3. With the amount 100, \<open>processCustomerPayment\<close> applied to a
  \<open>CreditCardPayment\<close>, a \<open>PayPalPayment\<close>, a \<open>BankTransferPayment\<close> and a
  \<open>CryptoPayment\<close> logs one message each, which contains the label of the variant
  (\<open>credit card\<close>, \<open>PayPal\<close>, \<open>bank transfer\<close>, \<open>cryptocurrency\<close>) and the text \<open>100\<close>.
  \<open>CryptoPayment\<close> is declared after \<open>processCustomerPayment\<close>, which is the same function
  in all four calls.
\<close>

theorem processCustomerPayment_100:
  "processCustomerPayment (CreditCardPayment_extends_Payment CreditCardPayment) (decimal 100 0) out
     = (Inr (), out @ [js ''Processed credit card payment of $100''])
   \<and> string_includes (js ''Processed credit card payment of $100'') (js ''credit card'')
   \<and> string_includes (js ''Processed credit card payment of $100'') (js ''100'')
   \<and> processCustomerPayment (PayPalPayment_extends_Payment PayPalPayment) (decimal 100 0) out
     = (Inr (), out @ [js ''Processed PayPal payment of $100''])
   \<and> string_includes (js ''Processed PayPal payment of $100'') (js ''PayPal'')
   \<and> string_includes (js ''Processed PayPal payment of $100'') (js ''100'')
   \<and> processCustomerPayment (BankTransferPayment_extends_Payment BankTransferPayment)
         (decimal 100 0) out
     = (Inr (), out @ [js ''Processed bank transfer payment of $100''])
   \<and> string_includes (js ''Processed bank transfer payment of $100'') (js ''bank transfer'')
   \<and> string_includes (js ''Processed bank transfer payment of $100'') (js ''100'')
   \<and> processCustomerPayment (CryptoPayment_extends_Payment CryptoPayment) (decimal 100 0) out
     = (Inr (), out @ [js ''Processed cryptocurrency payment of $100''])
   \<and> string_includes (js ''Processed cryptocurrency payment of $100'') (js ''cryptocurrency'')
   \<and> string_includes (js ''Processed cryptocurrency payment of $100'') (js ''100'')"
  using credit_card_message PayPal_message bank_transfer_message cryptocurrency_message
  by (simp only: credit_card_100 PayPal_100 bank_transfer_100 cryptocurrency_100 simp_thms)

section \<open>Two stores behind one high-level module\<close>

lemma MySQL_message:
  "string_includes (js ''User data is being saved to MySQL'') (js ''MySQL'')
   \<and> \<not> string_includes (js ''User data is being saved to MySQL'') (js ''MongoDB'')"
  by (simp add: js_def)

lemma MongoDB_message:
  "string_includes (js ''User data is being saved to MongoDB'') (js ''MongoDB'')
   \<and> \<not> string_includes (js ''User data is being saved to MongoDB'') (js ''MySQL'')"
  by (simp add: js_def)

lemma saveData_MySQL:
  "HighLevelModuleDIP_saveData
       (HighLevelModuleDIP (MySqlDatabaseDIP_implements_IDatabase MySqlDatabaseDIP))
       (js ''User data'') out
     = (Inr (), out @ [js ''User data is being saved to MySQL''])"
  by (simp add: MySqlDatabaseDIP_implements_IDatabase_def MySqlDatabaseDIP_save_def
      console_log_def js_def)

lemma saveData_MongoDB:
  "HighLevelModuleDIP_saveData
       (HighLevelModuleDIP (MongoDbDatabaseDIP_implements_IDatabase MongoDbDatabaseDIP))
       (js ''User data'') out
     = (Inr (), out @ [js ''User data is being saved to MongoDB''])"
  by (simp add: MongoDbDatabaseDIP_implements_IDatabase_def MongoDbDatabaseDIP_save_def
      console_log_def js_def)

lemma MySQL_MongoDB_differ:
  "js ''User data is being saved to MySQL'' \<noteq> js ''User data is being saved to MongoDB''"
  by (simp add: js_def)

text \<open>
  Claim C4. \<open>saveData("User data")\<close> on a \<open>HighLevelModuleDIP\<close> built with a
  \<open>MySqlDatabaseDIP\<close> logs \<open>User data is being saved to MySQL\<close>; built with a
  \<open>MongoDbDatabaseDIP\<close> it logs \<open>User data is being saved to MongoDB\<close>. The two messages
  differ, each names its own store and not the other, and both runs go through the one
  function \<open>HighLevelModuleDIP_saveData\<close>.
\<close>

theorem saveData_names_the_store:
  "HighLevelModuleDIP_saveData
       (HighLevelModuleDIP (MySqlDatabaseDIP_implements_IDatabase MySqlDatabaseDIP))
       (js ''User data'') out
     = (Inr (), out @ [js ''User data is being saved to MySQL''])
   \<and> HighLevelModuleDIP_saveData
       (HighLevelModuleDIP (MongoDbDatabaseDIP_implements_IDatabase MongoDbDatabaseDIP))
       (js ''User data'') out
     = (Inr (), out @ [js ''User data is being saved to MongoDB''])
   \<and> js ''User data is being saved to MySQL'' \<noteq> js ''User data is being saved to MongoDB''
   \<and> string_includes (js ''User data is being saved to MySQL'') (js ''MySQL'')
   \<and> \<not> string_includes (js ''User data is being saved to MySQL'') (js ''MongoDB'')
   \<and> string_includes (js ''User data is being saved to MongoDB'') (js ''MongoDB'')
   \<and> \<not> string_includes (js ''User data is being saved to MongoDB'') (js ''MySQL'')"
  using MySQL_message MongoDB_message MySQL_MongoDB_differ
  by (simp only: saveData_MySQL saveData_MongoDB simp_thms)

section \<open>Printers\<close>

lemma narrow_printers_declare_their_interfaces:
  "set (map fst BasicPrinterISP_methods) = set (concat BasicPrinterISP_implements)
   \<and> set (map fst AdvancedPrinter_methods) = set (concat AdvancedPrinter_implements)
   \<and> set (map fst Photocopier_methods) = set (concat Photocopier_implements)"
  by (auto simp: BasicPrinterISP_methods_def BasicPrinterISP_implements_def
      AdvancedPrinter_methods_def AdvancedPrinter_implements_def
      Photocopier_methods_def Photocopier_implements_def
      Printable_def Scannable_def Faxable_def Photocopyable_def)

lemma narrow_printers_log:
  "BasicPrinterISP_print b out = (Inr (), out @ [js ''Printing document...''])
   \<and> AdvancedPrinter_print a out = (Inr (), out @ [js ''Printing document...''])
   \<and> AdvancedPrinter_scan a out = (Inr (), out @ [js ''Scanning document...''])
   \<and> AdvancedPrinter_fax a out = (Inr (), out @ [js ''Faxing document...''])
   \<and> Photocopier_print p out = (Inr (), out @ [js ''Printing document...''])
   \<and> Photocopier_photocopy p out = (Inr (), out @ [js ''Photocopying document...''])"
  by (simp add: BasicPrinterISP_print_def AdvancedPrinter_print_def AdvancedPrinter_scan_def
      AdvancedPrinter_fax_def Photocopier_print_def Photocopier_photocopy_def console_log_def)

text \<open>
  Claim C5. In the design with the narrow interfaces, the methods a class declares are
  exactly the operations of the interfaces it implements (\<open>Printable\<close>, \<open>Scannable\<close>,
  \<open>Faxable\<close>, \<open>Photocopyable\<close>), and every declared method of \<open>BasicPrinterISP\<close>,
  \<open>AdvancedPrinter\<close> and \<open>Photocopier\<close>, on any receiver and from any console, completes
  without an error and logs its message.
\<close>

theorem narrow_interfaces_never_throw:
  "set (map fst BasicPrinterISP_methods) = set (concat BasicPrinterISP_implements)
   \<and> set (map fst AdvancedPrinter_methods) = set (concat AdvancedPrinter_implements)
   \<and> set (map fst Photocopier_methods) = set (concat Photocopier_implements)
   \<and> (\<forall>(operation, method) \<in> set BasicPrinterISP_methods.
         \<exists>msg. \<forall>this out. method this out = (Inr (), out @ [msg]))
   \<and> (\<forall>(operation, method) \<in> set AdvancedPrinter_methods.
         \<exists>msg. \<forall>this out. method this out = (Inr (), out @ [msg]))
   \<and> (\<forall>(operation, method) \<in> set Photocopier_methods.
         \<exists>msg. \<forall>this out. method this out = (Inr (), out @ [msg]))
   \<and> BasicPrinterISP_print b out = (Inr (), out @ [js ''Printing document...''])
   \<and> AdvancedPrinter_print a out = (Inr (), out @ [js ''Printing document...''])
   \<and> AdvancedPrinter_scan a out = (Inr (), out @ [js ''Scanning document...''])
   \<and> AdvancedPrinter_fax a out = (Inr (), out @ [js ''Faxing document...''])
   \<and> Photocopier_print p out = (Inr (), out @ [js ''Printing document...''])
   \<and> Photocopier_photocopy p out = (Inr (), out @ [js ''Photocopying document...''])"
proof -
  have "\<forall>(operation, method) \<in> set BasicPrinterISP_methods.
          \<exists>msg. \<forall>this out. method this out = (Inr (), out @ [msg])"
    by (simp add: BasicPrinterISP_methods_def BasicPrinterISP_print_def console_log_def)
  moreover have "\<forall>(operation, method) \<in> set AdvancedPrinter_methods.
          \<exists>msg. \<forall>this out. method this out = (Inr (), out @ [msg])"
    by (simp add: AdvancedPrinter_methods_def AdvancedPrinter_print_def AdvancedPrinter_scan_def
        AdvancedPrinter_fax_def console_log_def)
  moreover have "\<forall>(operation, method) \<in> set Photocopier_methods.
          \<exists>msg. \<forall>this out. method this out = (Inr (), out @ [msg])"
    by (simp add: Photocopier_methods_def Photocopier_print_def Photocopier_photocopy_def
        console_log_def)
  ultimately show ?thesis
    using narrow_printers_declare_their_interfaces narrow_printers_log [of b out a p]
    by blast
qed

theorem narrow_interfaces_never_throw_witness:
  "(''scan'', AdvancedPrinter_scan) \<in> set AdvancedPrinter_methods
   \<and> (\<exists>msg. \<forall>this out. AdvancedPrinter_scan this out = (Inr (), out @ [msg]))
   \<and> AdvancedPrinter_scan AdvancedPrinter [] = (Inr (), [js ''Scanning document...''])"
proof -
  have member: "(''scan'', AdvancedPrinter_scan) \<in> set AdvancedPrinter_methods"
    by (simp add: AdvancedPrinter_methods_def)
  from narrow_interfaces_never_throw [of BasicPrinterISP "[]" AdvancedPrinter Photocopier]
  have all: "\<forall>(operation, method) \<in> set AdvancedPrinter_methods.
          \<exists>msg. \<forall>this out. method this out = (Inr (), out @ [msg])"
    and scan: "AdvancedPrinter_scan AdvancedPrinter [] = (Inr (), [] @ [js ''Scanning document...''])"
    by blast+
  from all member have "\<exists>msg. \<forall>this out. AdvancedPrinter_scan this out = (Inr (), out @ [msg])"
    by blast
  with member scan show ?thesis
    by simp
qed

text \<open>
  Claim C6. In the design with the one wide interface, \<open>scan()\<close> and \<open>fax()\<close> on a
  \<open>BasicPrinter\<close> throw an error that says the operation is not supported, and log
  nothing; the statements that follow the call in the caller do not run, so the error is
  the outcome of the caller as well. \<open>print()\<close> on a \<open>BasicPrinter\<close> completes and logs
  its message.
\<close>

theorem BasicPrinter_unsupported:
  "BasicPrinter_scan this out = (Inl (Error (js ''Scan not supported by BasicPrinter.'')), out)
   \<and> BasicPrinter_fax this out = (Inl (Error (js ''Fax not supported by BasicPrinter.'')), out)
   \<and> seq (BasicPrinter_scan this) rest out
       = (Inl (Error (js ''Scan not supported by BasicPrinter.'')), out)
   \<and> seq (BasicPrinter_fax this) rest out
       = (Inl (Error (js ''Fax not supported by BasicPrinter.'')), out)
   \<and> BasicPrinter_print this out = (Inr (), out @ [js ''Printing document...''])
   \<and> set (map fst BasicPrinter_methods) = set (concat BasicPrinter_implements)"
  by (auto simp: BasicPrinter_scan_def BasicPrinter_fax_def BasicPrinter_print_def throw_def
      seq_def console_log_def BasicPrinter_methods_def BasicPrinter_implements_def Printer_def)

section \<open>The discount that branches on a tag\<close>

lemma customer_types_differ:
  "js ''silver'' \<noteq> js ''regular'' \<and> js ''gold'' \<noteq> js ''regular'' \<and> js ''gold'' \<noteq> js ''silver''
   \<and> js ''premium'' \<noteq> js ''regular'' \<and> js ''premium'' \<noteq> js ''silver''
   \<and> js ''premium'' \<noteq> js ''gold''"
  by (simp add: js_def)

text \<open>
  Claim C7. The \<open>Discount\<close> that branches on \<open>customerType\<close> throws exactly when the tag
  is none of \<open>regular\<close>, \<open>silver\<close> and \<open>gold\<close>, and the error then reads
  \<open>Customer type not supported\<close>; for the three tags it returns \<open>amount * 0.05\<close>,
  \<open>amount * 0.1\<close> and \<open>amount * 0.15\<close>.
\<close>

theorem Discount_calculateDiscount_unrecognized:
  "(isl (Discount_calculateDiscount (Discount customerType amount))
      \<longleftrightarrow> customerType \<notin> {js ''regular'', js ''silver'', js ''gold''})
   \<and> (customerType \<notin> {js ''regular'', js ''silver'', js ''gold''} \<longrightarrow>
        Discount_calculateDiscount (Discount customerType amount)
          = Inl (Error (js ''Customer type not supported'')))
   \<and> Discount_calculateDiscount (Discount (js ''regular'') amount)
       = Inr (amount * decimal 5 (- 2))
   \<and> Discount_calculateDiscount (Discount (js ''silver'') amount)
       = Inr (amount * decimal 1 (- 1))
   \<and> Discount_calculateDiscount (Discount (js ''gold'') amount)
       = Inr (amount * decimal 15 (- 2))"
  using customer_types_differ by auto

theorem Discount_calculateDiscount_unrecognized_witness:
  "js ''premium'' \<notin> {js ''regular'', js ''silver'', js ''gold''}
   \<and> Discount_calculateDiscount (Discount (js ''premium'') (decimal 1000 0))
       = Inl (Error (js ''Customer type not supported''))
   \<and> Discount_calculateDiscount (Discount (js ''regular'') (decimal 1000 0)) = Inr (decimal 50 0)
   \<and> Discount_calculateDiscount (Discount (js ''gold'') (decimal 2000 0)) = Inr (decimal 300 0)"
proof -
  have premium: "js ''premium'' \<notin> {js ''regular'', js ''silver'', js ''gold''}"
    using customer_types_differ by simp
  from premium
    Discount_calculateDiscount_unrecognized [of "js ''premium''" "decimal 1000 0"]
  have "Discount_calculateDiscount (Discount (js ''premium'') (decimal 1000 0))
          = Inl (Error (js ''Customer type not supported''))"
    by blast
  moreover have "Discount_calculateDiscount (Discount (js ''regular'') (decimal 1000 0))
          = Inr (decimal 50 0)"
    using Discount_calculateDiscount_unrecognized [of customerType "decimal 1000 0"]
    by (simp only: regular_discount_1000)
  moreover have "Discount_calculateDiscount (Discount (js ''gold'') (decimal 2000 0))
          = Inr (decimal 300 0)"
    using Discount_calculateDiscount_unrecognized [of customerType "decimal 2000 0"]
    by (simp only: gold_discount_2000)
  ultimately show ?thesis
    using premium by blast
qed

section \<open>The user's password\<close>

text \<open>What the example of the source logs for Alice.\<close>

lemma User_save_Alice:
  \<open>User_save (User (js ''Alice'') (js ''alice@example.com'') (js ''AlicePassword'')) out
     = (Inr (), out @ [js ''User {"name":"Alice","email":"alice@example.com"} saved to database''])\<close>
  by (simp add: User_save_def console_log_def JSON_stringify_def QuoteJSONString_def js_def
      is_leading_surrogate_def is_trailing_surrogate_def)

text \<open>
  Claim C9. Two users with the same name and the same email, whatever their passwords,
  give the same object from \<open>getUser()\<close>, which holds the name and the email only, and
  the same completion and console from \<open>save()\<close>.
\<close>

theorem User_password_not_observable:
  "User_getUser (User name email password) = User_getUser (User name email password')
   \<and> User_getUser (User name email password) = [(js ''name'', name), (js ''email'', email)]
   \<and> User_save (User name email password) out = User_save (User name email password') out"
  by (simp add: User_save_def)

section \<open>The database module before and after the inversion\<close>

text \<open>
  Claim C10. For every string \<open>data\<close> and from any console, \<open>saveToMySQL(data)\<close> on a
  \<open>HighLevelModule\<close> has the effect of \<open>saveData(data)\<close> on a \<open>HighLevelModuleDIP\<close> built
  with a \<open>MySqlDatabaseDIP\<close>, and \<open>saveToMongoDB(data)\<close> the effect of \<open>saveData(data)\<close> on
  one built with a \<open>MongoDbDatabaseDIP\<close>.
\<close>

theorem HighLevelModule_equivalent:
  "HighLevelModule_saveToMySQL HighLevelModule_new data out
     = HighLevelModuleDIP_saveData
         (HighLevelModuleDIP (MySqlDatabaseDIP_implements_IDatabase MySqlDatabaseDIP)) data out
   \<and> HighLevelModule_saveToMongoDB HighLevelModule_new data out
     = HighLevelModuleDIP_saveData
         (HighLevelModuleDIP (MongoDbDatabaseDIP_implements_IDatabase MongoDbDatabaseDIP)) data out"
  by (simp add: HighLevelModule_new_def MySqlDatabase_save_def MongoDbDatabase_save_def
      MySqlDatabaseDIP_implements_IDatabase_def MongoDbDatabaseDIP_implements_IDatabase_def
      MySqlDatabaseDIP_save_def MongoDbDatabaseDIP_save_def)

section \<open>Repeated invocations\<close>
















end
